theory Spec2Isabelle
  imports Complex_Main "HOL-Library.Sublist" "HOL-Library.Word"
begin

section \<open>SharePoint file analyzer: the file-processing pipeline\<close>

text \<open>
  A shallow embedding of \<^verbatim>\<open>main.process_files\<close>, of the text extraction of
  \<^verbatim>\<open>sharepoint_client.SharePointClient\<close>, of \<^verbatim>\<open>ai_analyzer.AIAnalyzer\<close> and of
  the row assembly of \<^verbatim>\<open>excel_generator.ExcelGenerator.create_report\<close>.

  A Python \<^verbatim>\<open>str\<close> is a \<^typ>\<open>string\<close>: one \<^typ>\<open>char\<close> stands for one code point,
  so \<^const>\<open>length\<close> is Python's \<^verbatim>\<open>len\<close>. An exception is a value \<open>Inl msg\<close> of a
  sum, where \<open>msg\<close> is what \<^verbatim>\<open>str(e)\<close> gives. What \<^verbatim>\<open>print\<close> writes to the
  console is not part of the model; that the write may raise is. The progress bar of
  \<^verbatim>\<open>tqdm\<close> is taken as the plain iteration over the list.
\<close>

subsection \<open>Python string operations\<close>

text \<open>\<^verbatim>\<open>str.isspace\<close> on one code point, over the code points below 256.\<close>

definition py_isspace :: "char \<Rightarrow> bool" where
  "py_isspace c = ((of_char c :: nat) \<in> set [9, 10, 11, 12, 13, 28, 29, 30, 31, 32, 133, 160])"

text \<open>\<^verbatim>\<open>s.strip()\<close>\<close>

definition strip :: "string \<Rightarrow> string" where
  "strip s = rev (dropWhile py_isspace (rev (dropWhile py_isspace s)))"

text \<open>\<^verbatim>\<open>s.startswith(p)\<close>\<close>

definition startswith :: "string \<Rightarrow> string \<Rightarrow> bool" where
  "startswith s p = (take (length p) s = p)"

text \<open>
  \<^verbatim>\<open>s.split(sep)\<close> for a separator that is not empty, scanning from the left; \<open>acc\<close>
  is the piece being read, reversed. (Python raises ValueError on an empty separator;
  the only separator of the program is the literal fence.)
\<close>

function split_acc :: "string \<Rightarrow> string \<Rightarrow> string \<Rightarrow> string list" where
  "split_acc sep acc s =
     (if sep \<noteq> [] \<and> startswith s sep then rev acc # split_acc sep [] (drop (length sep) s)
      else (case s of
              [] \<Rightarrow> [rev acc]
            | c # cs \<Rightarrow> split_acc sep (c # acc) cs))"
  by pat_completeness auto
termination
proof (relation "measure (\<lambda>(sep, acc, s). length s)")
  show "wf (measure (\<lambda>(sep, acc, s). length s))" by simp
next
  fix sep acc s :: string
  assume "sep \<noteq> [] \<and> startswith s sep"
  then have "s \<noteq> []" by (auto simp: startswith_def)
  with \<open>sep \<noteq> [] \<and> startswith s sep\<close>
  show "((sep, [], drop (length sep) s), (sep, acc, s)) \<in> measure (\<lambda>(sep, acc, s). length s)"
    by simp
next
  fix sep acc s :: string and c cs
  assume "s = c # cs"
  then show "((sep, c # acc, cs), (sep, acc, s)) \<in> measure (\<lambda>(sep, acc, s). length s)"
    by simp
qed

declare split_acc.simps [simp del]

definition py_split :: "string \<Rightarrow> string \<Rightarrow> string list" where
  "py_split s sep = split_acc sep [] s"

text \<open>\<^verbatim>\<open>sep.join(parts)\<close>\<close>

fun join :: "string \<Rightarrow> string list \<Rightarrow> string" where
  "join sep [] = []"
| "join sep [p] = p"
| "join sep (p # q # ps) = p @ sep @ join sep (q # ps)"

text \<open>
  \<^verbatim>\<open>s[:n]\<close> for an integer \<open>n\<close>: a negative bound counts from the end of the string.
\<close>

definition slice_to :: "string \<Rightarrow> int \<Rightarrow> string" where
  "slice_to s n = (if 0 \<le> n then take (nat n) s else take (nat (int (length s) + n)) s)"

text \<open>\<^verbatim>\<open>str(n)\<close> for an integer: its decimal digits, after the sign of a negative one.\<close>

definition digit_char :: "nat \<Rightarrow> char" where
  "digit_char d = ''0123456789'' ! d"

function str_nat :: "nat \<Rightarrow> string" where
  "str_nat n = (if n < 10 then [digit_char n] else str_nat (n div 10) @ [digit_char (n mod 10)])"
  by pat_completeness auto
termination
  by (relation "measure (\<lambda>n. n)") auto

declare str_nat.simps [simp del]

definition str_int :: "int \<Rightarrow> string" where
  "str_int i = (if i < 0 then CHR ''-'' # str_nat (nat (- i)) else str_nat (nat i))"

subsection \<open>Data\<close>

text \<open>
  A value that \<^verbatim>\<open>json.loads\<close> returns. A float is kept as its literal, a dict as the
  list of its items.
\<close>

datatype json =
    JNull
  | JBool bool
  | JInt int
  | JFloat string
  | JStr string
  | JArr "json list"
  | JObj "(string \<times> json) list"

type_synonym bytes = "8 word list"

text \<open>
  The dict that \<^verbatim>\<open>SharePointClient.list_files\<close> builds for one file, with its keys
  \<^verbatim>\<open>name\<close>, \<^verbatim>\<open>server_relative_url\<close>, \<^verbatim>\<open>size\<close>, \<^verbatim>\<open>time_created\<close>,
  \<^verbatim>\<open>time_modified\<close> and \<^verbatim>\<open>extension\<close>.
\<close>

record file_info =
  f_name :: string
  f_server_relative_url :: string
  f_size :: int
  f_time_created :: string
  f_time_modified :: string
  f_extension :: string

text \<open>The dict with the keys \<^verbatim>\<open>title\<close> and \<^verbatim>\<open>summary\<close> that the analyzer returns.\<close>

record analysis =
  a_title :: json
  a_summary :: json

text \<open>One entry of \<^verbatim>\<open>analysis_results\<close>.\<close>

record analysis_result =
  r_filename :: string
  r_title :: json
  r_summary :: json
  r_size :: int
  r_time_modified :: string
  r_extension :: string

text \<open>One entry of \<^verbatim>\<open>errors\<close>.\<close>

record error_entry =
  e_filename :: string
  e_error_type :: string
  e_error_message :: string

text \<open>
  What the pipeline calls and does not define: the configured size ceiling, the two
  remote services, which answer from a state \<open>'w\<close> and move it, the console, which
  reads the state and leaves it, and the decoders of the libraries, which are functions
  of their input. Each one either raises (\<open>Inl\<close>, with the exception's message) or
  returns.
  \<^item> \<open>print\<close>: the built-in \<^verbatim>\<open>print\<close> on one string; it raises when the console
    does not take the text (a character its encoding does not have, a closed stream);
  \<^item> \<open>download_file\<close>: \<^verbatim>\<open>SharePointClient.download_file\<close>, which raises what the
    remote read raises, or what its own console write raises on the way;
  \<^item> \<open>chat_completions_create\<close>: the call \<^verbatim>\<open>client.chat.completions.create\<close> with the
    fixed system message, temperature and token limit, on the user prompt, followed by
    the read of \<^verbatim>\<open>response.choices[0].message.content\<close>, which may be \<^verbatim>\<open>None\<close>;
  \<^item> \<open>decode_utf8_ignore\<close>: \<^verbatim>\<open>content_bytes.decode('utf-8', errors='ignore')\<close>;
  \<^item> \<open>pdf_pages_text\<close>: \<^verbatim>\<open>PdfReader\<close> on the bytes and \<^verbatim>\<open>extract_text\<close> on every page;
  \<^item> \<open>docx_paragraphs_text\<close>: \<^verbatim>\<open>Document\<close> on the bytes and the text of every paragraph;
  \<^item> \<open>json_loads\<close>: \<^verbatim>\<open>json.loads\<close>.
\<close>

record 'w env =
  MAX_FILE_SIZE_MB :: int
  print :: "'w \<Rightarrow> string \<Rightarrow> string + unit"
  download_file :: "'w \<Rightarrow> string \<Rightarrow> (string + bytes) \<times> 'w"
  chat_completions_create :: "'w \<Rightarrow> string \<Rightarrow> (string + string option) \<times> 'w"
  decode_utf8_ignore :: "bytes \<Rightarrow> string + string"
  pdf_pages_text :: "bytes \<Rightarrow> string + string list"
  docx_paragraphs_text :: "bytes \<Rightarrow> string + string list"
  json_loads :: "string \<Rightarrow> string + json"

definition SUPPORTED_FILE_TYPES :: "string list" where
  "SUPPORTED_FILE_TYPES =
     [''.txt'', ''.pdf'', ''.docx'', ''.doc'',
      ''.xlsx'', ''.xls'', ''.pptx'', ''.ppt'',
      ''.md'', ''.csv'', ''.json'', ''.xml'']"

subsection \<open>Text extraction (sharepoint\_client.py)\<close>

definition extract_pdf_text :: "'w env \<Rightarrow> bytes \<Rightarrow> string" where
  "extract_pdf_text env content_bytes =
     (case pdf_pages_text env content_bytes of
        Inr text_parts \<Rightarrow> join ''\<newline>'' text_parts
      | Inl e \<Rightarrow> ''[Error extracting PDF text: '' @ e @ '']'')"

definition extract_docx_text :: "'w env \<Rightarrow> bytes \<Rightarrow> string" where
  "extract_docx_text env content_bytes =
     (case docx_paragraphs_text env content_bytes of
        Inr text_parts \<Rightarrow> join ''\<newline>'' text_parts
      | Inl e \<Rightarrow> ''[Error extracting DOCX text: '' @ e @ '']'')"

definition get_file_content_as_text ::
  "'w env \<Rightarrow> 'w \<Rightarrow> string \<Rightarrow> string \<Rightarrow> (string + string) \<times> 'w" where
  "get_file_content_as_text env w server_relative_url file_extension =
     (case download_file env w server_relative_url of
        (Inl e, w') \<Rightarrow> (Inl e, w')
      | (Inr content_bytes, w') \<Rightarrow>
          (if file_extension = ''.txt'' then decode_utf8_ignore env content_bytes
           else if file_extension = ''.pdf'' then Inr (extract_pdf_text env content_bytes)
           else if file_extension \<in> set [''.docx'', ''.doc'']
             then Inr (extract_docx_text env content_bytes)
           else (case decode_utf8_ignore env content_bytes of
                   Inr t \<Rightarrow> Inr t
                 | Inl e \<Rightarrow> Inr (''[Unable to extract text from '' @ file_extension @ '' file]'')),
           w'))"

subsection \<open>The analyzer (ai\_analyzer.py)\<close>

text \<open>Lines 42-43 of \<^verbatim>\<open>analyze_document\<close>: the content that goes into the prompt.\<close>

definition truncate_content :: "string \<Rightarrow> int \<Rightarrow> string" where
  "truncate_content content max_content_length =
     (if int (length content) > max_content_length
      then slice_to content max_content_length @ ''\<newline>... [content truncated]''
      else content)"

definition prompt_head :: string where
  \<open>prompt_head =
     ''Analyze the following document and provide:\<newline>'' @
     ''1. A concise title that best represents the document's content\<newline>'' @
     ''2. A one-paragraph summary (3-5 sentences) describing the key points and purpose of the document\<newline>'' @
     ''\<newline>'' @
     ''Document filename: ''\<close>

definition prompt_middle :: string where
  \<open>prompt_middle = ''\<newline>\<newline>Document content:\<newline>''\<close>

definition prompt_tail :: string where
  \<open>prompt_tail =
     ''\<newline>\<newline>Please respond in the following JSON format:\<newline>'' @
     ''{\<newline>'' @
     ''  "title": "Your extracted or generated title here",\<newline>'' @
     ''  "summary": "Your one-paragraph summary here"\<newline>'' @
     ''}''\<close>

text \<open>The f-string of lines 46-59, on the filename and the content already truncated.\<close>

definition make_prompt :: "string \<Rightarrow> string \<Rightarrow> string" where
  "make_prompt filename content = prompt_head @ filename @ prompt_middle @ content @ prompt_tail"

definition type_name :: "json \<Rightarrow> string" where
  "type_name v =
     (case v of
        JNull \<Rightarrow> ''NoneType''
      | JBool _ \<Rightarrow> ''bool''
      | JInt _ \<Rightarrow> ''int''
      | JFloat _ \<Rightarrow> ''float''
      | JStr _ \<Rightarrow> ''str''
      | JArr _ \<Rightarrow> ''list''
      | JObj _ \<Rightarrow> ''dict'')"

text \<open>A name between apostrophes, as the messages of AttributeError show it.\<close>

definition quoted :: "string \<Rightarrow> string" where
  "quoted s = CHR 0x27 # s @ [CHR 0x27]"

definition no_attribute :: "string \<Rightarrow> string \<Rightarrow> string" where
  "no_attribute ty attr = quoted ty @ '' object has no attribute '' @ quoted attr"

text \<open>
  \<^verbatim>\<open>result.get(key, default)\<close>: only a dict has the method; on any other value the
  attribute lookup raises AttributeError.
\<close>

definition dict_get :: "json \<Rightarrow> string \<Rightarrow> json \<Rightarrow> string + json" where
  "dict_get result key dflt =
     (case result of
        JObj items \<Rightarrow> Inr (case map_of items key of None \<Rightarrow> dflt | Some v \<Rightarrow> v)
      | _ \<Rightarrow> Inl (no_attribute (type_name result) ''get''))"

text \<open>Lines 85-89: removal of a Markdown code fence around the response.\<close>

definition strip_code_block :: "string \<Rightarrow> string + string" where
  "strip_code_block response_text =
     (if startswith response_text ''```'' then
        (case py_split response_text ''```'' of
           _ # inner # _ \<Rightarrow>
             Inr (strip (if startswith inner ''json'' then drop 4 inner else inner))
         | _ \<Rightarrow> Inl ''list index out of range'')
      else Inr response_text)"

text \<open>Lines 91-96: parsing, and the two fields with their defaults.\<close>

definition parse_response :: "'w env \<Rightarrow> string \<Rightarrow> string \<Rightarrow> string + analysis" where
  "parse_response env filename response_text =
     (case strip_code_block response_text of
        Inl e \<Rightarrow> Inl e
      | Inr t \<Rightarrow>
          (case json_loads env t of
             Inl e \<Rightarrow> Inl e
           | Inr result \<Rightarrow>
               (case dict_get result ''title'' (JStr filename) of
                  Inl e \<Rightarrow> Inl e
                | Inr ti \<Rightarrow>
                    (case dict_get result ''summary'' (JStr ''Unable to generate summary'') of
                       Inl e \<Rightarrow> Inl e
                     | Inr su \<Rightarrow> Inr \<lparr>a_title = ti, a_summary = su\<rparr>))))"

text \<open>The body of the \<^verbatim>\<open>try\<close> of \<^verbatim>\<open>analyze_document\<close> (lines 62-96).\<close>

definition analyze_try ::
  "'w env \<Rightarrow> 'w \<Rightarrow> string \<Rightarrow> string \<Rightarrow> (string + analysis) \<times> 'w" where
  "analyze_try env w filename prompt =
     (case chat_completions_create env w prompt of
        (Inl e, w') \<Rightarrow> (Inl e, w')
      | (Inr None, w') \<Rightarrow> (Inl (no_attribute ''NoneType'' ''strip''), w')
      | (Inr (Some content), w') \<Rightarrow> (parse_response env filename (strip content), w'))"

text \<open>
  The handler of \<^verbatim>\<open>analyze_document\<close> (lines 98-103): the console write of line 99,
  then the result. An exception of the write leaves the handler, and the function.
\<close>

definition analyze_handler :: "'w env \<Rightarrow> 'w \<Rightarrow> string \<Rightarrow> string \<Rightarrow> string + analysis" where
  "analyze_handler env w filename e =
     (case print env w (''Error analyzing document '' @ quoted filename @ '': '' @ e) of
        Inl pe \<Rightarrow> Inl pe
      | Inr _ \<Rightarrow>
          Inr \<lparr>a_title = JStr filename, a_summary = JStr (''Error during analysis: '' @ e)\<rparr>)"

definition analyze_document ::
  "'w env \<Rightarrow> 'w \<Rightarrow> string \<Rightarrow> string \<Rightarrow> int \<Rightarrow> (string + analysis) \<times> 'w" where
  "analyze_document env w filename content max_content_length =
     (case analyze_try env w filename
             (make_prompt filename (truncate_content content max_content_length)) of
        (Inr a, w') \<Rightarrow> (Inr a, w')
      | (Inl e, w') \<Rightarrow> (analyze_handler env w' filename e, w'))"

definition analyze_file_metadata :: "string \<Rightarrow> string \<Rightarrow> analysis" where
  "analyze_file_metadata filename extension =
     \<lparr>a_title = JStr filename,
      a_summary = JStr (''File type: '' @ extension @
                        ''. Content analysis not available for this file type.'')\<rparr>"

subsection \<open>The batch loop (main.py)\<close>

text \<open>The condition of the list comprehension of lines 76-80.\<close>

definition supported :: "'w env \<Rightarrow> file_info \<Rightarrow> bool" where
  "supported env f =
     (f_extension f \<in> set SUPPORTED_FILE_TYPES
      \<and> f_size f \<le> MAX_FILE_SIZE_MB env * 1024 * 1024)"

definition supported_files :: "'w env \<Rightarrow> file_info list \<Rightarrow> file_info list" where
  "supported_files env files = filter (supported env) files"

text \<open>The three console writes of lines 82-84, before the loop.\<close>

definition print_header :: "'w env \<Rightarrow> 'w \<Rightarrow> nat \<Rightarrow> nat \<Rightarrow> string + unit" where
  "print_header env w n_supported n_files =
     (case print env w (''\<newline>Processing '' @ str_nat n_supported
                         @ '' files (filtered from '' @ str_nat n_files @ '' total files)'') of
        Inl e \<Rightarrow> Inl e
      | Inr _ \<Rightarrow>
          (case print env w (''Supported types: '' @ join '', '' SUPPORTED_FILE_TYPES) of
             Inl e \<Rightarrow> Inl e
           | Inr _ \<Rightarrow>
               print env w (''Max file size: '' @ str_int (MAX_FILE_SIZE_MB env) @ '' MB\<newline>'')))"

text \<open>
  Lines 89-121, the body of the outer \<^verbatim>\<open>try\<close> for one file: the inner \<^verbatim>\<open>try\<close> around
  the extraction, the choice of the analysis, and the entry to append. It takes the
  error list, which the inner handler extends, and returns it with the entry, or with
  the exception that \<^verbatim>\<open>analyze_document\<close> raised.
\<close>

definition process_body ::
  "'w env \<Rightarrow> 'w \<Rightarrow> file_info \<Rightarrow> error_entry list
     \<Rightarrow> (string + analysis_result) \<times> error_entry list \<times> 'w" where
  "process_body env w file_info errors =
     (let filename = f_name file_info;
          extension = f_extension file_info;
          (got, w1) = get_file_content_as_text env w (f_server_relative_url file_info) extension;
          (content, errors1) =
            (case got of
               Inr t \<Rightarrow> (Some t, errors)
             | Inl e \<Rightarrow>
                 (None, errors @ [\<lparr>e_filename = filename,
                                    e_error_type = ''Content Extraction Failed'',
                                    e_error_message = e\<rparr>]));
          (analysed, w2) =
            (case content of
               Some c \<Rightarrow>
                 if c \<noteq> [] \<and> length (strip c) > 0
                 then analyze_document env w1 filename c 8000
                 else (Inr (analyze_file_metadata filename extension), w1)
             | None \<Rightarrow> (Inr (analyze_file_metadata filename extension), w1))
      in (case analysed of
            Inl e \<Rightarrow> (Inl e, errors1, w2)
          | Inr analysis \<Rightarrow>
              (Inr \<lparr>r_filename = filename,
                    r_title = a_title analysis,
                    r_summary = a_summary analysis,
                    r_size = f_size file_info,
                    r_time_modified = f_time_modified file_info,
                    r_extension = extension\<rparr>,
               errors1, w2)))"

text \<open>
  One iteration of the loop of line 87: the body, and the handler of lines 123-129,
  which appends the error and writes to the console. An exception of that write leaves
  the loop and \<^verbatim>\<open>process_files\<close>, and the two lists are lost with it.
\<close>

definition process_file ::
  "'w env \<Rightarrow> 'w \<Rightarrow> file_info \<Rightarrow> analysis_result list \<Rightarrow> error_entry list
     \<Rightarrow> (string + analysis_result list \<times> error_entry list) \<times> 'w" where
  "process_file env w file_info analysis_results errors =
     (case process_body env w file_info errors of
        (Inr entry, errors1, w') \<Rightarrow> (Inr (analysis_results @ [entry], errors1), w')
      | (Inl e, errors1, w') \<Rightarrow>
          (case print env w' (''\<newline>Error processing '' @ f_name file_info @ '': '' @ e) of
             Inl pe \<Rightarrow> (Inl pe, w')
           | Inr _ \<Rightarrow>
               (Inr (analysis_results,
                     errors1 @ [\<lparr>e_filename = f_name file_info,
                                  e_error_type = ''Processing Failed'',
                                  e_error_message = e\<rparr>]), w')))"

fun process_loop ::
  "'w env \<Rightarrow> 'w \<Rightarrow> file_info list \<Rightarrow> analysis_result list \<Rightarrow> error_entry list
     \<Rightarrow> (string + analysis_result list \<times> error_entry list) \<times> 'w" where
  "process_loop env w [] analysis_results errors = (Inr (analysis_results, errors), w)"
| "process_loop env w (file_info # rest) analysis_results errors =
     (case process_file env w file_info analysis_results errors of
        (Inl e, w') \<Rightarrow> (Inl e, w')
      | (Inr (analysis_results1, errors1), w') \<Rightarrow>
          process_loop env w' rest analysis_results1 errors1)"

definition process_files ::
  "'w env \<Rightarrow> 'w \<Rightarrow> file_info list \<Rightarrow> string + analysis_result list \<times> error_entry list" where
  "process_files env w files =
     (case print_header env w (length (supported_files env files)) (length files) of
        Inl e \<Rightarrow> Inl e
      | Inr _ \<Rightarrow> fst (process_loop env w (supported_files env files) [] []))"

subsection \<open>The rows of the report (excel\_generator.py)\<close>

text \<open>
  \<^verbatim>\<open>round(x, ndigits)\<close> on the exact value of \<open>x\<close>: to the nearest multiple of
  \<open>10 ^ - ndigits\<close>, a tie going to the even one. The bytes of a file divided by 1024
  is exact in binary floating point below \<open>2 ^ 53\<close> bytes, and the rounded cell is
  the float next to the decimal computed here.
\<close>

definition round_half_even :: "rat \<Rightarrow> int" where
  "round_half_even x =
     (let f = \<lfloor>x\<rfloor>; d = x - of_int f
      in if d < 1 / 2 then f
         else if 1 / 2 < d then f + 1
         else if even f then f else f + 1)"

definition py_round :: "rat \<Rightarrow> nat \<Rightarrow> rat" where
  "py_round x ndigits = of_int (round_half_even (x * 10 ^ ndigits)) / 10 ^ ndigits"

record report_row =
  c_index :: nat
  c_filename :: string
  c_title :: json
  c_summary :: json
  c_size_kb :: rat
  c_last_modified :: string

text \<open>Lines 62-69 of \<^verbatim>\<open>create_report\<close>: the cells of columns 1 to 6 of one data row.\<close>

definition report_row_of :: "nat \<Rightarrow> analysis_result \<Rightarrow> report_row" where
  "report_row_of idx result =
     \<lparr>c_index = idx,
      c_filename = r_filename result,
      c_title = r_title result,
      c_summary = r_summary result,
      c_size_kb = py_round (of_int (r_size result) / 1024) 2,
      c_last_modified = r_time_modified result\<rparr>"

definition create_report_rows :: "analysis_result list \<Rightarrow> report_row list" where
  "create_report_rows analysis_results =
     map (\<lambda>(idx, result). report_row_of idx result)
         (zip [1 ..< Suc (length analysis_results)] analysis_results)"

subsection \<open>Notions used to state the properties\<close>

text \<open>The prompt that \<^const>\<open>analyze_document\<close> passes to the text-generation call.\<close>

abbreviation sent_prompt :: "string \<Rightarrow> string \<Rightarrow> int \<Rightarrow> string" where
  "sent_prompt filename content max_content_length \<equiv>
     make_prompt filename (truncate_content content max_content_length)"

text \<open>The analysis that the handler of \<^const>\<open>analyze_document\<close> returns (lines 100-103).\<close>

abbreviation degraded :: "string \<Rightarrow> string \<Rightarrow> analysis" where
  "degraded filename e \<equiv>
     \<lparr>a_title = JStr filename, a_summary = JStr (''Error during analysis: '' @ e)\<rparr>"

text \<open>The entry that the loop appends for a file with the analysis \<open>a\<close>.\<close>

abbreviation entry_of :: "file_info \<Rightarrow> analysis \<Rightarrow> analysis_result" where
  "entry_of f a \<equiv>
     \<lparr>r_filename = f_name f,
      r_title = a_title a,
      r_summary = a_summary a,
      r_size = f_size f,
      r_time_modified = f_time_modified f,
      r_extension = f_extension f\<rparr>"

text \<open>The entry that the loop appends for a file analysed from its metadata only.\<close>

abbreviation metadata_entry :: "file_info \<Rightarrow> analysis_result" where
  "metadata_entry f \<equiv> entry_of f (analyze_file_metadata (f_name f) (f_extension f))"

abbreviation extraction_failed :: "file_info \<Rightarrow> string \<Rightarrow> error_entry" where
  "extraction_failed f e \<equiv>
     \<lparr>e_filename = f_name f, e_error_type = ''Content Extraction Failed'',
      e_error_message = e\<rparr>"

abbreviation processing_failed :: "file_info \<Rightarrow> string \<Rightarrow> error_entry" where
  "processing_failed f e \<equiv>
     \<lparr>e_filename = f_name f, e_error_type = ''Processing Failed'',
      e_error_message = e\<rparr>"

text \<open>A console that takes every text in every state.\<close>

definition quiet :: "'w env \<Rightarrow> bool" where
  "quiet env = (\<forall>w s. print env w s = Inr ())"

text \<open>
  What one file is found to add to the two lists: its entry, with no error or with one
  extraction error, or no entry and one \<^verbatim>\<open>Processing Failed\<close> error.
\<close>

definition adds_for :: "file_info \<Rightarrow> analysis_result list \<times> error_entry list \<Rightarrow> bool" where
  "adds_for f c =
     (((\<exists>a. fst c = [entry_of f a]) \<and> (snd c = [] \<or> (\<exists>e. snd c = [extraction_failed f e])))
      \<or> (fst c = [] \<and> (\<exists>e. snd c = [processing_failed f e])))"

text \<open>What one file adds when its analysis returns: the first case of \<^const>\<open>adds_for\<close>.\<close>

definition adds_entry_for :: "file_info \<Rightarrow> analysis_result list \<times> error_entry list \<Rightarrow> bool" where
  "adds_entry_for f c =
     ((\<exists>a. fst c = [entry_of f a]) \<and> (snd c = [] \<or> (\<exists>e. snd c = [extraction_failed f e])))"


subsection \<open>A small folder, for the concrete runs\<close>

definition pdf_error_text :: string where
  "pdf_error_text = ''[Error extracting PDF text: EOF marker not found]''"

definition answer_notes :: string where
  \<open>answer_notes = ''{"title": "Notes", "summary": "A run of the letter a."}''\<close>

definition answer_error_json :: string where
  \<open>answer_error_json =
     ''{"title": "Extraction error", "summary": "The text reports a failed PDF extraction."}''\<close>

definition answer_error :: string where
  "answer_error = ''```json\<newline>'' @ answer_error_json @ ''\<newline>```''"

definition answer_title_only :: string where
  \<open>answer_title_only = ''{"title": "Quarterly report"}''\<close>

text \<open>
  The state counts the remote calls. The console takes every text. One file is
  missing on the server, the PDF and DOCX decoders reject every input, and the
  text-generation service answers with a fenced JSON object exactly when the document
  it is shown is the PDF error text.
\<close>

definition example_env :: "nat env" where
  "example_env =
     \<lparr>MAX_FILE_SIZE_MB = 10,
      print = (\<lambda>w s. Inr ()),
      download_file = (\<lambda>w url.
        (if url = ''/docs/lost.txt'' then Inl ''404 Client Error: Not Found''
         else if url = ''/docs/scan.pdf'' then Inr [0x25, 0x50, 0x44, 0x46]
         else Inr (replicate 100 0x61), Suc w)),
      chat_completions_create = (\<lambda>w prompt.
        (Inr (Some (if prompt = make_prompt ''scan.pdf'' pdf_error_text
                    then answer_error else answer_notes)), Suc w)),
      decode_utf8_ignore = (\<lambda>b. Inr (map (\<lambda>x. char_of (unat x)) b)),
      pdf_pages_text = (\<lambda>b. Inl ''EOF marker not found''),
      docx_paragraphs_text = (\<lambda>b. Inl ''File is not a zip file''),
      json_loads = (\<lambda>s.
        if s = answer_error_json
        then Inr (JObj [(''title'', JStr ''Extraction error''),
                        (''summary'', JStr ''The text reports a failed PDF extraction.'')])
        else if s = answer_notes
        then Inr (JObj [(''title'', JStr ''Notes''), (''summary'', JStr ''A run of the letter a.'')])
        else if s = answer_title_only
        then Inr (JObj [(''title'', JStr ''Quarterly report'')])
        else if s = ''[1, 2]''
        then Inr (JArr [JInt 1, JInt 2])
        else Inl ''Expecting value: line 1 column 1 (char 0)'')\<rparr>"

text \<open>The same services, with the text-generation call answering \<open>a\<close> whatever it is asked.\<close>

definition answering :: "string + string option \<Rightarrow> nat env" where
  "answering a = example_env\<lparr>chat_completions_create := (\<lambda>w prompt. (a, Suc w))\<rparr>"

text \<open>
  A console that encodes in ASCII: a write of a text with a character from 128 on
  (one with its top bit set) raises, in every state.
\<close>

definition ascii_print :: "nat \<Rightarrow> string \<Rightarrow> string + unit" where
  "ascii_print w s =
     (if list_all (\<lambda>c. \<not> digit7 c) s then Inr ()
      else Inl ''ascii codec cannot encode the text: ordinal not in range(128)'')"

text \<open>
  The services of \<^const>\<open>answering\<close> behind the ASCII console. In \<open>refusing\<close> the
  text-generation call fails with a message that the console cannot encode.
\<close>

definition ascii_answering :: "string + string option \<Rightarrow> nat env" where
  "ascii_answering a = (answering a)\<lparr>print := ascii_print\<rparr>"

definition refusing :: "nat env" where
  "refusing = ascii_answering (Inl [CHR ''d'', CHR 0xE9, CHR ''p'', CHR ''a'', CHR ''s'',
                                    CHR ''s'', CHR 0xE9])"

definition notes_txt :: file_info where
  "notes_txt = \<lparr>f_name = ''notes.txt'', f_server_relative_url = ''/docs/notes.txt'',
     f_size = 100, f_time_created = ''2024-01-01T00:00:00Z'',
     f_time_modified = ''2024-01-02T00:00:00Z'', f_extension = ''.txt''\<rparr>"

definition scan_pdf :: file_info where
  "scan_pdf = \<lparr>f_name = ''scan.pdf'', f_server_relative_url = ''/docs/scan.pdf'',
     f_size = 4, f_time_created = ''2024-01-01T00:00:00Z'',
     f_time_modified = ''2024-01-03T00:00:00Z'', f_extension = ''.pdf''\<rparr>"

definition blob_bin :: file_info where
  "blob_bin = \<lparr>f_name = ''blob.bin'', f_server_relative_url = ''/docs/blob.bin'',
     f_size = 7, f_time_created = ''2024-01-01T00:00:00Z'',
     f_time_modified = ''2024-01-04T00:00:00Z'', f_extension = ''.bin''\<rparr>"

definition lost_txt :: file_info where
  "lost_txt = \<lparr>f_name = ''lost.txt'', f_server_relative_url = ''/docs/lost.txt'',
     f_size = 12, f_time_created = ''2024-01-01T00:00:00Z'',
     f_time_modified = ''2024-01-05T00:00:00Z'', f_extension = ''.txt''\<rparr>"

definition huge_txt :: file_info where
  "huge_txt = \<lparr>f_name = ''huge.txt'', f_server_relative_url = ''/docs/huge.txt'',
     f_size = 10485761, f_time_created = ''2024-01-01T00:00:00Z'',
     f_time_modified = ''2024-01-06T00:00:00Z'', f_extension = ''.txt''\<rparr>"

definition cafe_txt :: file_info where
  "cafe_txt = \<lparr>f_name = [CHR ''c'', CHR ''a'', CHR ''f'', CHR 0xE9, CHR ''.'', CHR ''t'',
                          CHR ''x'', CHR ''t''],
     f_server_relative_url = ''/docs/cafe.txt'',
     f_size = 100, f_time_created = ''2024-01-01T00:00:00Z'',
     f_time_modified = ''2024-01-07T00:00:00Z'', f_extension = ''.txt''\<rparr>"

definition notes_entry :: analysis_result where
  "notes_entry = \<lparr>r_filename = ''notes.txt'', r_title = JStr ''Notes'',
     r_summary = JStr ''A run of the letter a.'', r_size = 100,
     r_time_modified = ''2024-01-02T00:00:00Z'', r_extension = ''.txt''\<rparr>"

section \<open>Properties\<close>

subsection \<open>The console\<close>

lemma quiet_print: "quiet env \<Longrightarrow> print env w s = Inr ()"
  by (simp add: quiet_def)

lemma quiet_header: "quiet env \<Longrightarrow> print_header env w n m = Inr ()"
  by (simp add: print_header_def quiet_print)


lemma analyze_handler_raised:
  "analyze_handler env w filename e = Inl pe \<Longrightarrow> \<exists>w' s. print env w' s = Inl pe"
  by (auto simp: analyze_handler_def split: sum.splits)

lemma analyze_handler_quiet:
  "quiet env \<Longrightarrow> analyze_handler env w filename e = Inr (degraded filename e)"
  by (simp add: analyze_handler_def quiet_print)

subsection \<open>The analyzer, as a whole\<close>

lemma analyze_document_by_try:
  "fst (analyze_document env w filename content mx) =
     (case analyze_try env w filename (sent_prompt filename content mx) of
        (Inr a, w') \<Rightarrow> Inr a
      | (Inl e, w') \<Rightarrow> analyze_handler env w' filename e)"
  by (simp add: analyze_document_def split: prod.splits sum.splits)

lemma analyze_document_raised:
  assumes "analyze_document env w filename content mx = (Inl pe, w1)"
  shows "\<exists>w' s. print env w' s = Inl pe"
proof -
  from assms have "fst (analyze_document env w filename content mx) = Inl pe" by simp
  then show ?thesis
    unfolding analyze_document_by_try
    by (auto split: prod.splits sum.splits dest: analyze_handler_raised)
qed

lemma analyze_document_quiet:
  assumes "quiet env"
  shows "\<exists>a w1. analyze_document env w filename content mx = (Inr a, w1)"
proof -
  obtain r w1 where r: "analyze_document env w filename content mx = (r, w1)"
    by (cases "analyze_document env w filename content mx")
  have "\<exists>a. r = Inr a"
  proof (cases r)
    case (Inl pe)
    with r analyze_document_raised [of env w filename content mx pe w1]
    show ?thesis using assms by (auto simp: quiet_def)
  next
    case (Inr a)
    then show ?thesis by blast
  qed
  with r show ?thesis by blast
qed

subsection \<open>One file, and the loop\<close>

lemma process_body_frame:
  "process_body env w f es =
     (case process_body env w f [] of (res, es1, w') \<Rightarrow> (res, es @ es1, w'))"
  by (simp add: process_body_def Let_def split: prod.splits sum.splits option.splits)

lemma process_file_frame:
  "process_file env w f rs es =
     (case process_file env w f [] [] of
        (Inl e, w') \<Rightarrow> (Inl e, w')
      | (Inr (rs1, es1), w') \<Rightarrow> (Inr (rs @ rs1, es @ es1), w'))"
  unfolding process_file_def
  by (subst process_body_frame) (simp split: prod.splits sum.splits)

lemma process_body_raised:
  assumes "get_file_content_as_text env w (f_server_relative_url f) (f_extension f) = (Inl e, w1)"
  shows "process_body env w f es = (Inr (metadata_entry f), es @ [extraction_failed f e], w1)"
  using assms by (simp add: process_body_def Let_def split: prod.splits)

lemma process_body_returned:
  assumes "get_file_content_as_text env w (f_server_relative_url f) (f_extension f) = (Inr t, w1)"
  shows "process_body env w f es =
     (if t \<noteq> [] \<and> strip t \<noteq> []
      then (case analyze_document env w1 (f_name f) t 8000 of
              (Inl e', w2) \<Rightarrow> (Inl e', es, w2)
            | (Inr a, w2) \<Rightarrow> (Inr (entry_of f a), es, w2))
      else (Inr (metadata_entry f), es, w1))"
  using assms by (simp add: process_body_def Let_def split: prod.splits sum.splits)

text \<open>The body gives an entry of the file, or what \<^const>\<open>analyze_document\<close> raised.\<close>

lemma process_body_cases:
  obtains (entry) a x w' where
      "process_body env w f es = (Inr (entry_of f a), es @ x, w')"
      "x = [] \<or> (\<exists>e. x = [extraction_failed f e])"
    | (raised) pe w' w1 t where
      "process_body env w f es = (Inl pe, es, w')"
      "analyze_document env w1 (f_name f) t 8000 = (Inl pe, w')"
proof (cases "get_file_content_as_text env w (f_server_relative_url f) (f_extension f)")
  case (Pair got w1)
  show ?thesis
  proof (cases got)
    case (Inl e)
    with Pair have "process_body env w f es
        = (Inr (metadata_entry f), es @ [extraction_failed f e], w1)"
      by (simp add: process_body_raised)
    then show ?thesis by (rule entry) blast
  next
    case (Inr t)
    with Pair have got: "get_file_content_as_text env w (f_server_relative_url f) (f_extension f)
        = (Inr t, w1)" by simp
    show ?thesis
    proof (cases "t \<noteq> [] \<and> strip t \<noteq> []")
      case False
      then have "process_body env w f es = (Inr (metadata_entry f), es @ [], w1)"
        by (auto simp: process_body_returned [OF got])
      then show ?thesis by (rule entry) simp
    next
      case True
      obtain r w2 where r: "analyze_document env w1 (f_name f) t 8000 = (r, w2)"
        by (cases "analyze_document env w1 (f_name f) t 8000")
      show ?thesis
      proof (cases r)
        case (Inl pe)
        with r True have "process_body env w f es = (Inl pe, es, w2)"
          by (simp add: process_body_returned [OF got])
        moreover from r Inl have "analyze_document env w1 (f_name f) t 8000 = (Inl pe, w2)"
          by simp
        ultimately show ?thesis by (rule raised)
      next
        case (Inr a)
        with r True have "process_body env w f es = (Inr (entry_of f a), es @ [], w2)"
          by (simp add: process_body_returned [OF got])
        then show ?thesis by (rule entry) simp
      qed
    qed
  qed
qed

lemma process_file_of_entry:
  assumes "process_body env w f es = (Inr r, es1, w')"
  shows "process_file env w f rs es = (Inr (rs @ [r], es1), w')"
  using assms by (simp add: process_file_def)

lemma adds_forI:
  "x = [] \<or> (\<exists>e. x = [extraction_failed f e]) \<Longrightarrow> adds_for f ([entry_of f a], x)"
  "adds_for f ([], [processing_failed f e])"
  unfolding adds_for_def by (simp_all only: fst_conv snd_conv) blast+

lemma adds_entry_forI:
  "x = [] \<or> (\<exists>e. x = [extraction_failed f e]) \<Longrightarrow> adds_entry_for f ([entry_of f a], x)"
  unfolding adds_entry_for_def by (simp only: fst_conv snd_conv) blast

lemma process_file_adds:
  assumes "process_file env w f [] [] = (Inr c, w')"
  shows "adds_for f c"
proof (cases rule: process_body_cases [of env w f "[]"])
  case (entry a x w1)
  from process_file_of_entry [OF entry(1), of "[]"] assms
  have "c = ([entry_of f a], x)" by simp
  with entry(2) show ?thesis by (simp only: adds_forI)
next
  case (raised pe w1 w2 t)
  with assms have "c = ([], [processing_failed f pe])"
    by (simp add: process_file_def split: sum.splits)
  then show ?thesis by (simp only: adds_forI)
qed


lemma process_file_quiet:
  assumes "quiet env"
  shows "\<exists>c w'. process_file env w f [] [] = (Inr c, w') \<and> adds_entry_for f c"
proof (cases rule: process_body_cases [of env w f "[]"])
  case (entry a x w1)
  from process_file_of_entry [OF entry(1), of "[]"]
  have "process_file env w f [] [] = (Inr ([entry_of f a], x), w1)" by simp
  moreover from entry(2) have "adds_entry_for f ([entry_of f a], x)" by (rule adds_entry_forI)
  ultimately show ?thesis by blast
next
  case (raised pe w1 w2 t)
  with analyze_document_quiet [OF assms, of w2 "f_name f" t 8000]
  show ?thesis by simp
qed

lemma process_loop_append:
  "process_loop env w (xs @ ys) rs es =
     (case process_loop env w xs rs es of
        (Inl e, w1) \<Rightarrow> (Inl e, w1)
      | (Inr (rs1, es1), w1) \<Rightarrow> process_loop env w1 ys rs1 es1)"
  by (induction xs arbitrary: w rs es) (auto split: prod.splits sum.splits)

lemma process_loop_returned:
  assumes "process_loop env w fs rs es = (Inr (rs', es'), w')"
  shows "\<exists>cs. list_all2 adds_for fs cs
           \<and> rs' = rs @ concat (map fst cs) \<and> es' = es @ concat (map snd cs)"
  using assms
proof (induction fs arbitrary: w rs es)
  case Nil
  then show ?case by simp
next
  case (Cons f fs)
  obtain r0 w0 where pf0: "process_file env w f [] [] = (r0, w0)"
    by (cases "process_file env w f [] []")
  show ?case
  proof (cases r0)
    case (Inl e)
    with pf0 have "process_file env w f rs es = (Inl e, w0)"
      by (subst process_file_frame) simp
    with Cons.prems show ?thesis by simp
  next
    case (Inr c)
    obtain rs1 es1 where c: "c = (rs1, es1)" by (cases c)
    from pf0 Inr have adds: "adds_for f c" by (simp add: process_file_adds)
    from pf0 Inr c have step: "process_file env w f rs es = (Inr (rs @ rs1, es @ es1), w0)"
      by (subst process_file_frame) simp
    with Cons.prems have "process_loop env w0 fs (rs @ rs1) (es @ es1) = (Inr (rs', es'), w')"
      by simp
    from Cons.IH [OF this] obtain cs where cs: "list_all2 adds_for fs cs"
      "rs' = (rs @ rs1) @ concat (map fst cs)" "es' = (es @ es1) @ concat (map snd cs)"
      by blast
    from adds cs(1) have "list_all2 adds_for (f # fs) (c # cs)" by simp
    moreover from cs(2) c have "rs' = rs @ concat (map fst (c # cs))" by simp
    moreover from cs(3) c have "es' = es @ concat (map snd (c # cs))" by simp
    ultimately show ?thesis by blast
  qed
qed


lemma process_loop_quiet:
  assumes "quiet env"
  shows "\<exists>cs w'. process_loop env w fs rs es
             = (Inr (rs @ concat (map fst cs), es @ concat (map snd cs)), w')
           \<and> list_all2 adds_entry_for fs cs"
proof (induction fs arbitrary: w rs es)
  case Nil
  show ?case by simp
next
  case (Cons f fs)
  from process_file_quiet [OF assms, of w f] obtain c w0
    where pf0: "process_file env w f [] [] = (Inr c, w0)" and adds: "adds_entry_for f c"
    by blast
  obtain rs1 es1 where c: "c = (rs1, es1)" by (cases c)
  from pf0 c have step: "process_file env w f rs es = (Inr (rs @ rs1, es @ es1), w0)"
    by (subst process_file_frame) simp
  from Cons.IH [of w0 "rs @ rs1" "es @ es1"] obtain cs w'
    where loop: "process_loop env w0 fs (rs @ rs1) (es @ es1)
             = (Inr ((rs @ rs1) @ concat (map fst cs), (es @ es1) @ concat (map snd cs)), w')"
      and all: "list_all2 adds_entry_for fs cs"
    by blast
  from step loop c have "process_loop env w (f # fs) rs es
      = (Inr (rs @ concat (map fst (c # cs)), es @ concat (map snd (c # cs))), w')"
    by simp
  moreover from adds all have "list_all2 adds_entry_for (f # fs) (c # cs)" by simp
  ultimately show ?case by blast
qed

subsection \<open>What the added entries and errors are\<close>


lemma adds_entry_for_adds: "adds_entry_for f c \<Longrightarrow> adds_for f c"
  by (simp add: adds_for_def adds_entry_for_def)

lemma adds_entry_names:
  "list_all2 adds_for fs cs \<Longrightarrow>
     subseq (map r_filename (concat (map fst cs))) (map f_name fs)"
  by (induction fs cs rule: list_all2_induct) (auto simp: adds_for_def)

lemma adds_error_names:
  "list_all2 adds_for fs cs \<Longrightarrow>
     subseq (map e_filename (concat (map snd cs))) (map f_name fs)"
  by (induction fs cs rule: list_all2_induct) (auto simp: adds_for_def)

lemma adds_entry_sizes:
  "list_all2 adds_for fs cs \<Longrightarrow>
     subseq (map (\<lambda>r. (r_filename r, r_size r)) (concat (map fst cs)))
            (map (\<lambda>f. (f_name f, f_size f)) fs)"
  by (induction fs cs rule: list_all2_induct) (auto simp: adds_for_def)


lemma adds_entries_names:
  "list_all2 adds_entry_for fs cs \<Longrightarrow> map r_filename (concat (map fst cs)) = map f_name fs"
  by (induction fs cs rule: list_all2_induct) (auto simp: adds_entry_for_def)

lemma adds_entries_sizes:
  "list_all2 adds_entry_for fs cs \<Longrightarrow> map r_size (concat (map fst cs)) = map f_size fs"
  by (induction fs cs rule: list_all2_induct) (auto simp: adds_entry_for_def)


subsection \<open>The batch, as a whole\<close>

lemma process_files_returned:
  assumes "process_files env w files = Inr (rs, es)"
  shows "\<exists>cs. list_all2 adds_for (supported_files env files) cs
           \<and> rs = concat (map fst cs) \<and> es = concat (map snd cs)"
proof -
  obtain w' where "process_loop env w (supported_files env files) [] [] = (Inr (rs, es), w')"
    using assms
    by (cases "process_loop env w (supported_files env files) [] []")
       (auto simp: process_files_def split: sum.splits)
  from process_loop_returned [OF this] show ?thesis by simp
qed


lemma process_files_quiet:
  assumes "quiet env"
  shows "\<exists>cs. process_files env w files = Inr (concat (map fst cs), concat (map snd cs))
           \<and> list_all2 adds_entry_for (supported_files env files) cs"
proof -
  from process_loop_quiet [OF assms, of w "supported_files env files" "[]" "[]"]
  obtain cs w' where "process_loop env w (supported_files env files) [] []
      = (Inr (concat (map fst cs), concat (map snd cs)), w')"
    and "list_all2 adds_entry_for (supported_files env files) cs"
    by auto
  then show ?thesis
    by (auto simp: process_files_def quiet_header [OF assms])
qed

subsection \<open>Runs on the small folder\<close>

lemma char_of_97: "char_of (97::nat) = CHR ''a''"
  by code_simp

lemmas example_simps =
  example_env_def answering_def ascii_answering_def refusing_def ascii_print_def
  notes_txt_def scan_pdf_def blob_bin_def lost_txt_def huge_txt_def cafe_txt_def
  notes_entry_def pdf_error_text_def answer_notes_def answer_error_def
  answer_error_json_def answer_title_only_def char_of_97

lemmas pipeline_simps =
  process_files_def print_header_def supported_files_def supported_def
  SUPPORTED_FILE_TYPES_def process_file_def process_body_def get_file_content_as_text_def
  extract_pdf_text_def extract_docx_text_def
  analyze_document_def analyze_handler_def analyze_try_def parse_response_def
  strip_code_block_def dict_get_def type_name_def no_attribute_def quoted_def
  make_prompt_def truncate_content_def slice_to_def analyze_file_metadata_def
  strip_def py_isspace_def startswith_def py_split_def split_acc.simps
  str_nat.simps str_int_def digit_char_def Let_def

lemma quiet_example: "quiet example_env"
  by (simp add: quiet_def example_env_def)

lemma run_notes:
  "process_loop example_env 0 (supported_files example_env [notes_txt, blob_bin]) [] []
     = (Inr ([notes_entry], []), 2)"
  by (simp add: pipeline_simps example_simps)

lemma lost_raises:
  "get_file_content_as_text example_env 2 (f_server_relative_url lost_txt) (f_extension lost_txt)
     = (Inl ''404 Client Error: Not Found'', 3)"
  by (simp add: get_file_content_as_text_def example_env_def lost_txt_def)


lemma run_refusing:
  "process_files refusing 0 [lost_txt, notes_txt, blob_bin]
     = Inr ([metadata_entry lost_txt],
            [extraction_failed lost_txt ''404 Client Error: Not Found'',
             processing_failed notes_txt
               ''ascii codec cannot encode the text: ordinal not in range(128)''])"
  by (simp add: pipeline_simps example_simps)

subsection \<open>The batch processor\<close>




text \<open>
  C5. A file whose extension is not in \<open>SUPPORTED_FILE_TYPES\<close>, or whose size is above
  the ceiling of \<open>MAX_FILE_SIZE_MB\<close> mebibytes, adds neither an entry nor an error:
  the loop runs over the same files, with the same outputs and the same state of the
  services, with the file in the input or without it. The outputs of \<open>process_files\<close>
  are then the same whenever the three opening console writes, which show the number
  of files, return in both runs, and always on a console that takes every text.
\<close>

theorem unsupported_file_adds_nothing:
  assumes "f_extension f \<notin> set SUPPORTED_FILE_TYPES
           \<or> f_size f > MAX_FILE_SIZE_MB env * 1024 * 1024"
  shows "supported_files env (before @ f # after) = supported_files env (before @ after)
     \<and> process_loop env w (supported_files env (before @ f # after)) [] []
         = process_loop env w (supported_files env (before @ after)) [] []
     \<and> (print_header env w (length (supported_files env (before @ f # after)))
            (length (before @ f # after)) = Inr ()
         \<and> print_header env w (length (supported_files env (before @ after)))
            (length (before @ after)) = Inr ()
        \<longrightarrow> process_files env w (before @ f # after) = process_files env w (before @ after))
     \<and> (print_header env w 0 1 = Inr () \<longrightarrow> process_files env w [f] = Inr ([], []))
     \<and> (quiet env \<longrightarrow>
          process_files env w (before @ f # after) = process_files env w (before @ after)
          \<and> process_files env w [f] = Inr ([], []))"
proof -
  from assms have no: "\<not> supported env f" by (auto simp: supported_def)
  then have same: "supported_files env (before @ f # after) = supported_files env (before @ after)"
    by (simp add: supported_files_def)
  from no have alone: "supported_files env [f] = []" by (simp add: supported_files_def)
  show ?thesis
  proof (intro conjI impI)
    show "supported_files env (before @ f # after) = supported_files env (before @ after)"
      by (rule same)
    show "process_loop env w (supported_files env (before @ f # after)) [] []
         = process_loop env w (supported_files env (before @ after)) [] []"
      by (simp only: same)
  next
    assume "print_header env w (length (supported_files env (before @ f # after)))
            (length (before @ f # after)) = Inr ()
         \<and> print_header env w (length (supported_files env (before @ after)))
            (length (before @ after)) = Inr ()"
    then show "process_files env w (before @ f # after) = process_files env w (before @ after)"
      by (simp add: process_files_def same)
  next
    assume "print_header env w 0 1 = Inr ()"
    then show "process_files env w [f] = Inr ([], [])"
      by (simp add: process_files_def alone)
  next
    assume q: "quiet env"
    show "process_files env w (before @ f # after) = process_files env w (before @ after)"
      by (simp add: process_files_def same quiet_header [OF q])
    show "process_files env w [f] = Inr ([], [])"
      by (simp add: process_files_def alone quiet_header [OF q])
  qed
qed

lemma header_refusing:
  assumes "n < 10" and "m < 10"
  shows "print_header refusing w n m = Inr ()"
  using assms
  by (simp add: print_header_def refusing_def ascii_answering_def ascii_print_def answering_def
      example_env_def SUPPORTED_FILE_TYPES_def str_nat.simps str_int_def digit_char_def
      nth_Cons')

theorem unsupported_file_adds_nothing_witness:
  "f_extension blob_bin \<notin> set SUPPORTED_FILE_TYPES
   \<and> quiet example_env
   \<and> process_files example_env 0 ([notes_txt] @ blob_bin # [scan_pdf])
       = process_files example_env 0 ([notes_txt] @ [scan_pdf])
   \<and> process_files example_env 0 [blob_bin] = Inr ([], [])
   \<and> f_size huge_txt > MAX_FILE_SIZE_MB example_env * 1024 * 1024
   \<and> process_files example_env 0 ([notes_txt] @ huge_txt # [scan_pdf])
       = process_files example_env 0 ([notes_txt] @ [scan_pdf])
   \<and> print_header refusing 0 (length (supported_files refusing ([lost_txt] @ blob_bin # [notes_txt])))
        (length ([lost_txt] @ blob_bin # [notes_txt])) = Inr ()
   \<and> print_header refusing 0 (length (supported_files refusing ([lost_txt] @ [notes_txt])))
        (length ([lost_txt] @ [notes_txt])) = Inr ()
   \<and> process_files refusing 0 ([lost_txt] @ blob_bin # [notes_txt])
       = process_files refusing 0 ([lost_txt] @ [notes_txt])
   \<and> print_header refusing 0 0 1 = Inr ()
   \<and> process_files refusing 0 [blob_bin] = Inr ([], [])"
proof -
  have ext: "f_extension blob_bin \<notin> set SUPPORTED_FILE_TYPES"
    by (simp add: blob_bin_def SUPPORTED_FILE_TYPES_def)
  have big: "f_size huge_txt > MAX_FILE_SIZE_MB example_env * 1024 * 1024"
    by (simp add: huge_txt_def example_env_def)
  from ext have h1: "f_extension blob_bin \<notin> set SUPPORTED_FILE_TYPES
      \<or> f_size blob_bin > MAX_FILE_SIZE_MB example_env * 1024 * 1024" ..
  from big have h2: "f_extension huge_txt \<notin> set SUPPORTED_FILE_TYPES
      \<or> f_size huge_txt > MAX_FILE_SIZE_MB example_env * 1024 * 1024" ..
  from ext have h3: "f_extension blob_bin \<notin> set SUPPORTED_FILE_TYPES
      \<or> f_size blob_bin > MAX_FILE_SIZE_MB refusing * 1024 * 1024" ..
  have p1: "print_header refusing 0
        (length (supported_files refusing ([lost_txt] @ blob_bin # [notes_txt])))
        (length ([lost_txt] @ blob_bin # [notes_txt])) = Inr ()"
    by (rule header_refusing) (simp_all add: supported_files_def le_less_trans [OF length_filter_le])
  have p2: "print_header refusing 0 (length (supported_files refusing ([lost_txt] @ [notes_txt])))
        (length ([lost_txt] @ [notes_txt])) = Inr ()"
    by (rule header_refusing) (simp_all add: supported_files_def le_less_trans [OF length_filter_le])
  have p3: "print_header refusing 0 0 1 = Inr ()"
    by (rule header_refusing) simp_all
  note Q1 = unsupported_file_adds_nothing [OF h1, where before = "[notes_txt]"
      and after = "[scan_pdf]" and w = 0]
  note Q2 = unsupported_file_adds_nothing [OF h2, where before = "[notes_txt]"
      and after = "[scan_pdf]" and w = 0]
  note Q3 = unsupported_file_adds_nothing [OF h3, where before = "[lost_txt]"
      and after = "[notes_txt]" and w = 0]
  from Q1 quiet_example
  have c1: "process_files example_env 0 ([notes_txt] @ blob_bin # [scan_pdf])
       = process_files example_env 0 ([notes_txt] @ [scan_pdf])"
    and c2: "process_files example_env 0 [blob_bin] = Inr ([], [])"
    by blast+
  from Q2 quiet_example
  have c3: "process_files example_env 0 ([notes_txt] @ huge_txt # [scan_pdf])
       = process_files example_env 0 ([notes_txt] @ [scan_pdf])"
    by blast
  from Q3 p1 p2
  have c4: "process_files refusing 0 ([lost_txt] @ blob_bin # [notes_txt])
       = process_files refusing 0 ([lost_txt] @ [notes_txt])"
    by blast
  from Q3 p3 have c5: "process_files refusing 0 [blob_bin] = Inr ([], [])"
    by blast
  from ext quiet_example c1 c2 big c3 p1 p2 c4 p3 c5 show ?thesis by (intro conjI)
qed

text \<open>
  C6. Both outputs keep the order of the input, with no reordering and no
  deduplication. When \<open>process_files\<close> returns, the names of the entries and the
  names of the errors are each a subsequence of the names of the supported files, which
  are a subsequence of the input. On a console that takes every text it returns and the
  names of the entries are the names of the supported files, in the order and number in
  which the input has them.
\<close>

theorem process_files_order:
  "(process_files env w files = Inr (rs, es) \<longrightarrow>
      subseq (map r_filename rs) (map f_name (supported_files env files))
      \<and> subseq (map e_filename es) (map f_name (supported_files env files)))
   \<and> (quiet env \<longrightarrow>
        (\<exists>rs' es'. process_files env w files = Inr (rs', es')
           \<and> map r_filename rs' = map f_name (supported_files env files)
           \<and> subseq (map e_filename es') (map f_name (supported_files env files))))
   \<and> subseq (supported_files env files) files"
proof (intro conjI impI)
  show "subseq (supported_files env files) files" by (simp add: supported_files_def)
next
  assume "process_files env w files = Inr (rs, es)"
  from process_files_returned [OF this] obtain cs
    where cs: "list_all2 adds_for (supported_files env files) cs"
      "rs = concat (map fst cs)" "es = concat (map snd cs)"
    by blast
  from adds_entry_names [OF cs(1)] cs(2)
  show "subseq (map r_filename rs) (map f_name (supported_files env files))" by simp
  from adds_error_names [OF cs(1)] cs(3)
  show "subseq (map e_filename es) (map f_name (supported_files env files))" by simp
next
  assume "quiet env"
  from process_files_quiet [OF this, of w files] obtain cs
    where run: "process_files env w files = Inr (concat (map fst cs), concat (map snd cs))"
      and all: "list_all2 adds_entry_for (supported_files env files) cs"
    by blast
  from all have "list_all2 adds_for (supported_files env files) cs"
    by (rule list_all2_mono) (rule adds_entry_for_adds)
  then have "subseq (map e_filename (concat (map snd cs))) (map f_name (supported_files env files))"
    by (rule adds_error_names)
  with run adds_entries_names [OF all]
  show "\<exists>rs' es'. process_files env w files = Inr (rs', es')
           \<and> map r_filename rs' = map f_name (supported_files env files)
           \<and> subseq (map e_filename es') (map f_name (supported_files env files))"
    by blast
qed

theorem process_files_order_witness:
  "process_files refusing 0 [lost_txt, notes_txt, blob_bin]
     = Inr ([metadata_entry lost_txt],
            [extraction_failed lost_txt ''404 Client Error: Not Found'',
             processing_failed notes_txt
               ''ascii codec cannot encode the text: ordinal not in range(128)''])
   \<and> subseq (map r_filename [metadata_entry lost_txt])
        (map f_name (supported_files refusing [lost_txt, notes_txt, blob_bin]))
   \<and> subseq (map e_filename
                [extraction_failed lost_txt ''404 Client Error: Not Found'',
                 processing_failed notes_txt
                   ''ascii codec cannot encode the text: ordinal not in range(128)''])
        (map f_name (supported_files refusing [lost_txt, notes_txt, blob_bin]))
   \<and> quiet example_env
   \<and> (\<exists>rs' es'. process_files example_env 0 [notes_txt, scan_pdf, blob_bin] = Inr (rs', es')
          \<and> map r_filename rs'
              = map f_name (supported_files example_env [notes_txt, scan_pdf, blob_bin])
          \<and> subseq (map e_filename es')
              (map f_name (supported_files example_env [notes_txt, scan_pdf, blob_bin])))"
proof -
  note T1 = process_files_order [where env = refusing and w = 0
      and files = "[lost_txt, notes_txt, blob_bin]", THEN conjunct1, rule_format, OF run_refusing]
  note T2 = process_files_order [where env = example_env and w = 0
      and files = "[notes_txt, scan_pdf, blob_bin]", THEN conjunct2, THEN conjunct1,
      rule_format, OF quiet_example]
  from run_refusing T1 quiet_example T2 show ?thesis by (intro conjI) blast+
qed

subsection \<open>Extraction\<close>

lemma strip_nonblank:
  assumes "\<not> py_isspace c"
  shows "strip (c # s) \<noteq> []"
proof -
  have "dropWhile py_isspace (c # s) = c # s" using assms by simp
  moreover have "dropWhile py_isspace (rev (c # s)) \<noteq> []"
    using assms by (auto simp: dropWhile_eq_Nil_conv)
  ultimately show ?thesis by (simp add: strip_def del: rev.simps)
qed

lemma bracket_not_space: "\<not> py_isspace CHR ''[''"
  by (simp add: py_isspace_def)

lemma get_file_content_raises_iff:
  assumes "file_extension \<noteq> ''.txt''"
  shows "fst (get_file_content_as_text env w url file_extension) = Inl e
         \<longleftrightarrow> fst (download_file env w url) = Inl e"
  using assms
  by (auto simp: get_file_content_as_text_def split: prod.splits sum.splits)

text \<open>
  C4. When the retrieval or the extraction raises for a supported file, in the state
  \<open>w0\<close> in which the loop reaches it after the files before it, the loop records a
  \<^verbatim>\<open>Content Extraction Failed\<close> error with the message of the exception, takes the
  text as absent, analyses the file from its metadata and still appends its entry. When
  \<open>process_files\<close> returns, as it does on a console that takes every text, the error
  and the entry stand in its outputs under the same file name, each right after what
  the files before it gave.
\<close>

theorem extraction_raised_entry_and_error:
  assumes sup: "supported env f"
    and reach: "process_loop env w (supported_files env before) [] [] = (Inr (rs0, es0), w0)"
    and raised: "get_file_content_as_text env w0 (f_server_relative_url f) (f_extension f)
                 = (Inl e, w1)"
  shows "process_file env w0 f rs0 es0
           = (Inr (rs0 @ [metadata_entry f], es0 @ [extraction_failed f e]), w1)
     \<and> (process_files env w (before @ f # after) = Inr (rs, es) \<longrightarrow>
          (\<exists>rs1 es1. rs = rs0 @ metadata_entry f # rs1
                    \<and> es = es0 @ extraction_failed f e # es1))
     \<and> (quiet env \<longrightarrow>
          (\<exists>rs1 es1. process_files env w (before @ f # after) =
             Inr (rs0 @ metadata_entry f # rs1, es0 @ extraction_failed f e # es1)))"
proof (intro conjI impI)
  let ?rest = "supported_files env after"
  have split: "supported_files env (before @ f # after) = supported_files env before @ f # ?rest"
    using sup by (simp add: supported_files_def)
  show step: "process_file env w0 f rs0 es0 =
      (Inr (rs0 @ [metadata_entry f], es0 @ [extraction_failed f e]), w1)"
    by (simp add: process_file_def process_body_raised [OF raised])
  have loop: "process_loop env w (supported_files env (before @ f # after)) [] []
      = process_loop env w1 ?rest (rs0 @ [metadata_entry f]) (es0 @ [extraction_failed f e])"
    by (simp add: split process_loop_append reach step)
  {
    assume "process_files env w (before @ f # after) = Inr (rs, es)"
    then obtain w' where "process_loop env w (supported_files env (before @ f # after)) [] []
        = (Inr (rs, es), w')"
      by (cases "process_loop env w (supported_files env (before @ f # after)) [] []")
         (auto simp: process_files_def split: sum.splits)
    then have "process_loop env w1 ?rest (rs0 @ [metadata_entry f]) (es0 @ [extraction_failed f e])
        = (Inr (rs, es), w')"
      by (simp only: loop)
    from process_loop_returned [OF this] obtain cs
      where "rs = (rs0 @ [metadata_entry f]) @ concat (map fst cs)"
        and "es = (es0 @ [extraction_failed f e]) @ concat (map snd cs)"
      by blast
    then have "rs = rs0 @ metadata_entry f # concat (map fst cs)"
      and "es = es0 @ extraction_failed f e # concat (map snd cs)"
      by simp_all
    then show "\<exists>rs1 es1. rs = rs0 @ metadata_entry f # rs1
                    \<and> es = es0 @ extraction_failed f e # es1"
      by blast
  }
  {
    assume q: "quiet env"
    from process_loop_quiet [OF q, of w1 ?rest "rs0 @ [metadata_entry f]"
        "es0 @ [extraction_failed f e]"]
    obtain cs w' where
      "process_loop env w1 ?rest (rs0 @ [metadata_entry f]) (es0 @ [extraction_failed f e])
         = (Inr ((rs0 @ [metadata_entry f]) @ concat (map fst cs),
                 (es0 @ [extraction_failed f e]) @ concat (map snd cs)), w')"
      by blast
    then have "process_files env w (before @ f # after) =
        Inr (rs0 @ metadata_entry f # concat (map fst cs),
             es0 @ extraction_failed f e # concat (map snd cs))"
      by (simp add: process_files_def quiet_header [OF q] loop)
    then show "\<exists>rs1 es1. process_files env w (before @ f # after) =
             Inr (rs0 @ metadata_entry f # rs1, es0 @ extraction_failed f e # es1)"
      by blast
  }
qed

theorem extraction_raised_entry_and_error_witness:
  "supported example_env lost_txt
   \<and> process_loop example_env 0 (supported_files example_env [notes_txt, blob_bin]) [] []
       = (Inr ([notes_entry], []), 2)
   \<and> get_file_content_as_text example_env 2 (f_server_relative_url lost_txt)
         (f_extension lost_txt) = (Inl ''404 Client Error: Not Found'', 3)
   \<and> process_file example_env 2 lost_txt [notes_entry] []
       = (Inr ([notes_entry] @ [metadata_entry lost_txt],
               [] @ [extraction_failed lost_txt ''404 Client Error: Not Found'']), 3)
   \<and> quiet example_env
   \<and> (\<exists>rs1 es1. process_files example_env 0 ([notes_txt, blob_bin] @ lost_txt # [scan_pdf]) =
        Inr ([notes_entry] @ metadata_entry lost_txt # rs1,
             [] @ extraction_failed lost_txt ''404 Client Error: Not Found'' # es1))"
proof -
  have sup: "supported example_env lost_txt"
    by (simp add: supported_def SUPPORTED_FILE_TYPES_def lost_txt_def example_env_def)
  note T = extraction_raised_entry_and_error [OF sup run_notes lost_raises]
  note T1 = T [THEN conjunct1]
  note T3 = T [where after = "[scan_pdf]", THEN conjunct2, THEN conjunct2, rule_format,
      OF quiet_example]
  from sup run_notes lost_raises T1 quiet_example T3 show ?thesis by (intro conjI)
qed

text \<open>
  C10. For a file with extension \<^verbatim>\<open>.pdf\<close>, \<^verbatim>\<open>.docx\<close> or \<^verbatim>\<open>.doc\<close> the
  extraction raises exactly when the download raises, with the same message. When the
  download returns and the decoder of the format raises, the extraction returns the
  bracketed error text, which is not empty and not blank, so the body of the loop
  passes that text to \<open>analyze_document\<close> and records no error; on a console that
  takes every text the loop appends the entry that \<open>analyze_document\<close> gives on it.
\<close>

theorem decode_error_is_text:
  assumes ext: "f_extension f \<in> {''.pdf'', ''.docx'', ''.doc''}"
  shows "(fst (get_file_content_as_text env w (f_server_relative_url f) (f_extension f)) = Inl e
            \<longleftrightarrow> fst (download_file env w (f_server_relative_url f)) = Inl e)
    \<and> (download_file env w (f_server_relative_url f) = (Inr content_bytes, w1)
        \<and> (if f_extension f = ''.pdf'' then pdf_pages_text env content_bytes
            else docx_paragraphs_text env content_bytes) = Inl msg
       \<longrightarrow> (let t = ''[Error extracting ''
                      @ (if f_extension f = ''.pdf'' then ''PDF'' else ''DOCX'')
                      @ '' text: '' @ msg @ '']''
            in get_file_content_as_text env w (f_server_relative_url f) (f_extension f)
                 = (Inr t, w1)
               \<and> t \<noteq> [] \<and> strip t \<noteq> []
               \<and> process_body env w f es =
                   (case analyze_document env w1 (f_name f) t 8000 of
                      (Inl pe, w2) \<Rightarrow> (Inl pe, es, w2)
                    | (Inr a, w2) \<Rightarrow> (Inr (entry_of f a), es, w2))
               \<and> (quiet env \<longrightarrow>
                    (\<exists>a w2. analyze_document env w1 (f_name f) t 8000 = (Inr a, w2)
                       \<and> process_file env w f rs es = (Inr (rs @ [entry_of f a], es), w2)))))"
proof (intro conjI impI)
  from ext have "f_extension f \<noteq> ''.txt''" by auto
  then show "fst (get_file_content_as_text env w (f_server_relative_url f) (f_extension f)) = Inl e
            \<longleftrightarrow> fst (download_file env w (f_server_relative_url f)) = Inl e"
    by (rule get_file_content_raises_iff)
next
  let ?t = "''[Error extracting '' @ (if f_extension f = ''.pdf'' then ''PDF'' else ''DOCX'')
              @ '' text: '' @ msg @ '']''"
  assume a: "download_file env w (f_server_relative_url f) = (Inr content_bytes, w1)
        \<and> (if f_extension f = ''.pdf'' then pdf_pages_text env content_bytes
            else docx_paragraphs_text env content_bytes) = Inl msg"
  have got: "get_file_content_as_text env w (f_server_relative_url f) (f_extension f) = (Inr ?t, w1)"
    using ext a
    by (auto simp: get_file_content_as_text_def extract_pdf_text_def extract_docx_text_def)
  have nonblank: "strip ?t \<noteq> []"
    using strip_nonblank [OF bracket_not_space] by simp
  have nonempty: "?t \<noteq> []" by simp
  have body: "process_body env w f es =
                   (case analyze_document env w1 (f_name f) ?t 8000 of
                      (Inl pe, w2) \<Rightarrow> (Inl pe, es, w2)
                    | (Inr a, w2) \<Rightarrow> (Inr (entry_of f a), es, w2))"
    using nonblank nonempty by (simp only: process_body_returned [OF got] simp_thms if_True)
  have appended: "quiet env \<longrightarrow>
      (\<exists>a w2. analyze_document env w1 (f_name f) ?t 8000 = (Inr a, w2)
         \<and> process_file env w f rs es = (Inr (rs @ [entry_of f a], es), w2))"
  proof
    assume q: "quiet env"
    from analyze_document_quiet [OF q, of w1 "f_name f" ?t 8000] obtain a w2
      where an: "analyze_document env w1 (f_name f) ?t 8000 = (Inr a, w2)" by blast
    with body have "process_body env w f es = (Inr (entry_of f a), es, w2)" by simp
    then have "process_file env w f rs es = (Inr (rs @ [entry_of f a], es), w2)"
      by (rule process_file_of_entry)
    with an show "\<exists>a w2. analyze_document env w1 (f_name f) ?t 8000 = (Inr a, w2)
         \<and> process_file env w f rs es = (Inr (rs @ [entry_of f a], es), w2)" by blast
  qed
  from got nonempty nonblank body appended
  show "let t = ?t in
      get_file_content_as_text env w (f_server_relative_url f) (f_extension f) = (Inr t, w1)
      \<and> t \<noteq> [] \<and> strip t \<noteq> []
      \<and> process_body env w f es =
           (case analyze_document env w1 (f_name f) t 8000 of
              (Inl pe, w2) \<Rightarrow> (Inl pe, es, w2)
            | (Inr a, w2) \<Rightarrow> (Inr (entry_of f a), es, w2))
      \<and> (quiet env \<longrightarrow>
            (\<exists>a w2. analyze_document env w1 (f_name f) t 8000 = (Inr a, w2)
               \<and> process_file env w f rs es = (Inr (rs @ [entry_of f a], es), w2)))"
    unfolding Let_def by blast
qed

theorem decode_error_is_text_witness:
  "f_extension scan_pdf \<in> {''.pdf'', ''.docx'', ''.doc''}
   \<and> download_file example_env 0 (f_server_relative_url scan_pdf) = (Inr [0x25, 0x50, 0x44, 0x46], 1)
   \<and> pdf_pages_text example_env [0x25, 0x50, 0x44, 0x46] = Inl ''EOF marker not found''
   \<and> get_file_content_as_text example_env 0 (f_server_relative_url scan_pdf) (f_extension scan_pdf)
       = (Inr pdf_error_text, 1)
   \<and> strip pdf_error_text \<noteq> []
   \<and> process_body example_env 0 scan_pdf [] =
       (case analyze_document example_env 1 (f_name scan_pdf) pdf_error_text 8000 of
          (Inl pe, w2) \<Rightarrow> (Inl pe, [], w2)
        | (Inr a, w2) \<Rightarrow> (Inr (entry_of scan_pdf a), [], w2))
   \<and> quiet example_env
   \<and> (\<exists>a w2. analyze_document example_env 1 (f_name scan_pdf) pdf_error_text 8000 = (Inr a, w2)
         \<and> process_file example_env 0 scan_pdf [] [] = (Inr ([] @ [entry_of scan_pdf a], []), w2))"
proof -
  have ext: "f_extension scan_pdf \<in> {''.pdf'', ''.docx'', ''.doc''}"
    by (simp add: scan_pdf_def)
  have dl: "download_file example_env 0 (f_server_relative_url scan_pdf)
      = (Inr [0x25, 0x50, 0x44, 0x46], 1)"
    by (simp add: example_env_def scan_pdf_def)
  have dec: "pdf_pages_text example_env [0x25, 0x50, 0x44, 0x46] = Inl ''EOF marker not found''"
    by (simp add: example_env_def)
  have pdf: "f_extension scan_pdf = ''.pdf''" by (simp add: scan_pdf_def)
  have t: "''[Error extracting '' @ (if f_extension scan_pdf = ''.pdf'' then ''PDF'' else ''DOCX'')
              @ '' text: '' @ ''EOF marker not found'' @ '']'' = pdf_error_text"
    by (simp add: pdf pdf_error_text_def)
  have hyp: "download_file example_env 0 (f_server_relative_url scan_pdf)
        = (Inr [0x25, 0x50, 0x44, 0x46], 1)
      \<and> (if f_extension scan_pdf = ''.pdf'' then pdf_pages_text example_env [0x25, 0x50, 0x44, 0x46]
          else docx_paragraphs_text example_env [0x25, 0x50, 0x44, 0x46])
        = Inl ''EOF marker not found''"
    using dl dec pdf by simp
  have "get_file_content_as_text example_env 0 (f_server_relative_url scan_pdf) (f_extension scan_pdf)
       = (Inr pdf_error_text, 1)
   \<and> pdf_error_text \<noteq> [] \<and> strip pdf_error_text \<noteq> []
   \<and> process_body example_env 0 scan_pdf [] =
       (case analyze_document example_env 1 (f_name scan_pdf) pdf_error_text 8000 of
          (Inl pe, w2) \<Rightarrow> (Inl pe, [], w2)
        | (Inr a, w2) \<Rightarrow> (Inr (entry_of scan_pdf a), [], w2))
   \<and> (quiet example_env \<longrightarrow>
        (\<exists>a w2. analyze_document example_env 1 (f_name scan_pdf) pdf_error_text 8000 = (Inr a, w2)
         \<and> process_file example_env 0 scan_pdf [] []
             = (Inr ([] @ [entry_of scan_pdf a], []), w2)))"
    using decode_error_is_text [OF ext, where env = example_env and w = 0
        and content_bytes = "[0x25, 0x50, 0x44, 0x46]" and ?w1.0 = 1
        and msg = "''EOF marker not found''" and rs = "[]" and es = "[]",
        THEN conjunct2, rule_format, OF hyp]
    unfolding Let_def t .
  with ext dl dec quiet_example show ?thesis by blast
qed

subsection \<open>The analyzer\<close>








lemma answering_call: "chat_completions_create (answering a) w p = (a, Suc w)"
  by (simp add: answering_def)


lemma answering_print: "print (answering a) w s = Inr ()"
  by (simp add: answering_def example_env_def)









text \<open>
  C2, on the code. The batch is a text file of 100 bytes, a PDF whose bytes the
  decoder rejects and a file with an extension outside \<open>SUPPORTED_FILE_TYPES\<close>. The
  run gives two entries and no error at all: the entry of the PDF holds what the
  text-generation service answered on the bracketed error text, not the summary from
  the metadata, and no \<^verbatim>\<open>Content Extraction Failed\<close> error is recorded for it.
\<close>

theorem process_files_corrupt_pdf:
  "f_size notes_txt = 100 \<and> f_extension notes_txt = ''.txt''
   \<and> f_extension scan_pdf = ''.pdf''
   \<and> pdf_pages_text example_env [0x25, 0x50, 0x44, 0x46] = Inl ''EOF marker not found''
   \<and> f_extension blob_bin \<notin> set SUPPORTED_FILE_TYPES
   \<and> process_files example_env 0 [notes_txt, scan_pdf, blob_bin] =
       Inr ([notes_entry,
             \<lparr>r_filename = ''scan.pdf'', r_title = JStr ''Extraction error'',
              r_summary = JStr ''The text reports a failed PDF extraction.'', r_size = 4,
              r_time_modified = ''2024-01-03T00:00:00Z'', r_extension = ''.pdf''\<rparr>],
            [])
   \<and> a_summary (analyze_file_metadata ''scan.pdf'' ''.pdf'')
       \<noteq> JStr ''The text reports a failed PDF extraction.''"
  by (simp add: pipeline_simps example_simps)

lemma metadata_summary_shape:
  "\<exists>s. a_summary (analyze_file_metadata fn ext) = JStr s
        \<and> sublist ext s \<and> sublist ''Content analysis not available'' s"
proof -
  let ?s = "''File type: '' @ ext @ ''. Content analysis not available for this file type.''"
  have "sublist ext ?s" by (rule sublist_appendI)
  moreover have "sublist ''Content analysis not available''
      ((''File type: '' @ ext @ ''. '') @ ''Content analysis not available''
         @ '' for this file type.'')"
    by (rule sublist_appendI)
  then have "sublist ''Content analysis not available'' ?s" by simp
  moreover have "a_summary (analyze_file_metadata fn ext) = JStr ?s"
    by (simp add: analyze_file_metadata_def)
  ultimately show ?thesis by blast
qed

text \<open>
  C7. \<open>analyze_file_metadata\<close> is a function of the file name and the extension
  alone: it takes neither the services nor their state. Its title is the file name, and
  its summary contains the extension and the words that content analysis is not
  available; for \<^verbatim>\<open>report.xyz\<close> with \<^verbatim>\<open>.xyz\<close> the summary contains \<^verbatim>\<open>.xyz\<close>.
\<close>

theorem analyze_file_metadata_summary:
  "a_title (analyze_file_metadata filename extension) = JStr filename
   \<and> (\<exists>s. a_summary (analyze_file_metadata filename extension) = JStr s
          \<and> sublist extension s
          \<and> sublist ''Content analysis not available'' s)
   \<and> (\<exists>s. a_summary (analyze_file_metadata ''report.xyz'' ''.xyz'') = JStr s
          \<and> sublist ''.xyz'' s)"
proof -
  have "a_title (analyze_file_metadata filename extension) = JStr filename"
    by (simp add: analyze_file_metadata_def)
  moreover note metadata_summary_shape [of filename extension]
  moreover have "\<exists>s. a_summary (analyze_file_metadata ''report.xyz'' ''.xyz'') = JStr s
          \<and> sublist ''.xyz'' s"
    using metadata_summary_shape [of "''report.xyz''" "''.xyz''"] by blast
  ultimately show ?thesis by (intro conjI)
qed

lemma analyze_try_frame:
  assumes "chat_completions_create env2 w p = chat_completions_create env w p"
    and "json_loads env2 = json_loads env"
  shows "analyze_try env2 w filename p = analyze_try env w filename p"
proof -
  have pr: "parse_response env2 filename t = parse_response env filename t" for t
    unfolding parse_response_def assms(2) ..
  show ?thesis
    unfolding analyze_try_def assms(1) pr ..
qed

lemma analyze_document_frame:
  assumes "chat_completions_create env2 w (sent_prompt filename content mx)
           = chat_completions_create env w (sent_prompt filename content mx)"
    and "json_loads env2 = json_loads env"
    and "print env2 = print env"
  shows "analyze_document env2 w filename content mx = analyze_document env w filename content mx"
proof -
  have h: "analyze_handler env2 w' filename e = analyze_handler env w' filename e" for w' e
    unfolding analyze_handler_def assms(3) ..
  show ?thesis
    unfolding analyze_document_def analyze_try_frame [OF assms(1,2)] h ..
qed

lemma prompt_middle_text: "prompt_middle = ''\<newline>\<newline>Document content:\<newline>''"
  by (simp add: prompt_middle_def)

text \<open>
  C8. For a maximum \<open>mx\<close> that is not negative: a content longer than \<open>mx\<close> is cut
  to its first \<open>mx\<close> characters followed by the truncation marker, and a content of
  length at most \<open>mx\<close> is left unchanged. The prompt holds that text, and with it the
  marker of a content that was cut, right after the line \<^verbatim>\<open>Document content:\<close> and
  before the closing instructions. This prompt is the one the text-generation call
  receives: the result depends on the service only through its answer to this prompt,
  and a failure of the call on this prompt is the failure reported in the summary.
\<close>

theorem truncate_content_sent:
  assumes "0 \<le> mx"
  shows "(mx < int (length content) \<longrightarrow>
            truncate_content content mx = take (nat mx) content @ ''\<newline>... [content truncated]''
            \<and> length (take (nat mx) content) = nat mx)
       \<and> (int (length content) \<le> mx \<longrightarrow> truncate_content content mx = content)
       \<and> make_prompt filename (truncate_content content mx)
            = prompt_head @ filename @ ''\<newline>\<newline>Document content:\<newline>''
                @ truncate_content content mx @ prompt_tail
       \<and> sublist (truncate_content content mx) (make_prompt filename (truncate_content content mx))
       \<and> (mx < int (length content) \<longrightarrow>
            sublist (take (nat mx) content @ ''\<newline>... [content truncated]'')
              (make_prompt filename (truncate_content content mx)))
       \<and> (chat_completions_create env2 w (make_prompt filename (truncate_content content mx))
            = chat_completions_create env w (make_prompt filename (truncate_content content mx))
          \<and> json_loads env2 = json_loads env \<and> print env2 = print env
          \<longrightarrow> analyze_document env2 w filename content mx
              = analyze_document env w filename content mx)
       \<and> (chat_completions_create env w (make_prompt filename (truncate_content content mx))
            = (Inl e, w')
          \<and> print env w' (''Error analyzing document '' @ quoted filename @ '': '' @ e) = Inr ()
          \<longrightarrow> analyze_document env w filename content mx
                = (Inr \<lparr>a_title = JStr filename,
                        a_summary = JStr (''Error during analysis: '' @ e)\<rparr>, w'))"
proof (intro conjI impI)
  assume long: "mx < int (length content)"
  with assms show t: "truncate_content content mx
      = take (nat mx) content @ ''\<newline>... [content truncated]''"
    by (simp add: truncate_content_def slice_to_def)
  from long assms show "length (take (nat mx) content) = nat mx"
    by simp
next
  assume "int (length content) \<le> mx"
  then show "truncate_content content mx = content"
    by (simp add: truncate_content_def)
next
  show p: "make_prompt filename (truncate_content content mx)
            = prompt_head @ filename @ ''\<newline>\<newline>Document content:\<newline>''
                @ truncate_content content mx @ prompt_tail"
    by (simp only: make_prompt_def prompt_middle_text)
  have "sublist (truncate_content content mx)
      ((prompt_head @ filename @ prompt_middle) @ truncate_content content mx @ prompt_tail)"
    by (rule sublist_appendI)
  then show s: "sublist (truncate_content content mx)
      (make_prompt filename (truncate_content content mx))"
    by (simp add: make_prompt_def)
  {
    assume long: "mx < int (length content)"
    with assms have "truncate_content content mx
        = take (nat mx) content @ ''\<newline>... [content truncated]''"
      by (simp add: truncate_content_def slice_to_def)
    with s show "sublist (take (nat mx) content @ ''\<newline>... [content truncated]'')
              (make_prompt filename (truncate_content content mx))"
      by simp
  }
next
  assume "chat_completions_create env2 w (make_prompt filename (truncate_content content mx))
            = chat_completions_create env w (make_prompt filename (truncate_content content mx))
          \<and> json_loads env2 = json_loads env \<and> print env2 = print env"
  then show "analyze_document env2 w filename content mx
              = analyze_document env w filename content mx"
    by (intro analyze_document_frame) blast+
next
  assume "chat_completions_create env w (make_prompt filename (truncate_content content mx))
            = (Inl e, w')
          \<and> print env w' (''Error analyzing document '' @ quoted filename @ '': '' @ e) = Inr ()"
  then show "analyze_document env w filename content mx
                = (Inr \<lparr>a_title = JStr filename,
                        a_summary = JStr (''Error during analysis: '' @ e)\<rparr>, w')"
    by (simp add: analyze_document_def analyze_try_def analyze_handler_def)
qed

theorem truncate_content_sent_witness:
  "(0::int) \<le> 5 \<and> 5 < int (length ''abcdefgh'')
   \<and> truncate_content ''abcdefgh'' 5 = ''abcde\<newline>... [content truncated]''
   \<and> sublist ''abcde\<newline>... [content truncated]''
        (make_prompt ''notes.txt'' (truncate_content ''abcdefgh'' 5))
   \<and> int (length ''abcde'') \<le> 5
   \<and> truncate_content ''abcde'' 5 = ''abcde''
   \<and> analyze_document (answering (Inr (Some answer_notes))) 0 ''notes.txt'' ''abcdefgh'' 5
       = analyze_document example_env 0 ''notes.txt'' ''abcdefgh'' 5
   \<and> analyze_document (answering (Inl ''Connection error.'')) 0 ''notes.txt'' ''abcdefgh'' 5
       = (Inr \<lparr>a_title = JStr ''notes.txt'',
               a_summary = JStr ''Error during analysis: Connection error.''\<rparr>, 1)"
proof -
  have pos: "(0::int) \<le> 5" by simp
  have long: "5 < int (length ''abcdefgh'')" by simp
  have short: "int (length ''abcde'') \<le> 5" by simp
  have same: "chat_completions_create (answering (Inr (Some answer_notes))) 0
                 (make_prompt ''notes.txt'' (truncate_content ''abcdefgh'' 5))
              = chat_completions_create example_env 0
                 (make_prompt ''notes.txt'' (truncate_content ''abcdefgh'' 5))
            \<and> json_loads (answering (Inr (Some answer_notes))) = json_loads example_env
            \<and> print (answering (Inr (Some answer_notes))) = print example_env"
    by (simp add: answering_def example_env_def make_prompt_def)
  have failed: "chat_completions_create (answering (Inl ''Connection error.'')) 0
      (make_prompt ''notes.txt'' (truncate_content ''abcdefgh'' 5)) = (Inl ''Connection error.'', 1)
      \<and> print (answering (Inl ''Connection error.'')) 1
          (''Error analyzing document '' @ quoted ''notes.txt'' @ '': '' @ ''Connection error.'')
        = Inr ()"
    by (simp add: answering_call answering_print)
  note T = truncate_content_sent [OF pos]
  have c1: "truncate_content ''abcdefgh'' 5 = ''abcde\<newline>... [content truncated]''"
    using T [where content = "''abcdefgh''", THEN conjunct1, rule_format, OF long]
    by simp
  have c2: "sublist ''abcde\<newline>... [content truncated]''
        (make_prompt ''notes.txt'' (truncate_content ''abcdefgh'' 5))"
    using T [where content = "''abcdefgh''" and filename = "''notes.txt''",
        THEN conjunct2, THEN conjunct2, THEN conjunct2, THEN conjunct2, THEN conjunct1,
        rule_format, OF long]
    by simp
  have c3: "truncate_content ''abcde'' 5 = ''abcde''"
    by (rule T [where content = "''abcde''", THEN conjunct2, THEN conjunct1, rule_format,
        OF short])
  have c4: "analyze_document (answering (Inr (Some answer_notes))) 0 ''notes.txt'' ''abcdefgh'' 5
       = analyze_document example_env 0 ''notes.txt'' ''abcdefgh'' 5"
    by (rule T [where content = "''abcdefgh''"
        and ?env2.0 = "answering (Inr (Some answer_notes))" and env = example_env
        and w = 0 and filename = "''notes.txt''",
        THEN conjunct2, THEN conjunct2, THEN conjunct2, THEN conjunct2, THEN conjunct2,
        THEN conjunct1, rule_format, OF same])
  have "analyze_document (answering (Inl ''Connection error.'')) 0 ''notes.txt'' ''abcdefgh'' 5
       = (Inr \<lparr>a_title = JStr ''notes.txt'',
               a_summary = JStr (''Error during analysis: '' @ ''Connection error.'')\<rparr>, 1)"
    by (rule T [where content = "''abcdefgh''"
        and env = "answering (Inl ''Connection error.'')" and w = 0
        and filename = "''notes.txt''" and e = "''Connection error.''" and w' = 1,
        THEN conjunct2, THEN conjunct2, THEN conjunct2, THEN conjunct2, THEN conjunct2,
        THEN conjunct2, rule_format, OF failed])
  then have c5: "analyze_document (answering (Inl ''Connection error.'')) 0 ''notes.txt''
        ''abcdefgh'' 5
       = (Inr \<lparr>a_title = JStr ''notes.txt'',
               a_summary = JStr ''Error during analysis: Connection error.''\<rparr>, 1)"
    by simp
  from pos long c1 c2 short c3 c4 c5 show ?thesis by (intro conjI)
qed

subsection \<open>The report\<close>

lemma round_half_even_near: "\<bar>of_int (round_half_even x) - x\<bar> \<le> 1 / 2"
proof -
  define f where "f = \<lfloor>x\<rfloor>"
  define d where "d = x - of_int f"
  have "0 \<le> d" "d < 1" unfolding d_def f_def by linarith+
  have x: "x = of_int f + d" by (simp add: d_def)
  have fl: "\<lfloor>x\<rfloor> = f" by (simp add: f_def)
  have "round_half_even x = f \<and> d \<le> 1 / 2 \<or> round_half_even x = f + 1 \<and> 1 / 2 \<le> d"
    unfolding round_half_even_def Let_def fl d_def [symmetric] by auto
  then show ?thesis
    using \<open>0 \<le> d\<close> \<open>d < 1\<close> unfolding x by auto
qed

lemma py_round_2_hundredths: "py_round x 2 = of_int (round_half_even (x * 100)) / 100"
  by (simp add: py_round_def)

lemma py_round_2_near: "\<bar>py_round x 2 - x\<bar> \<le> 1 / 200"
proof -
  define r where "r = round_half_even (x * 100)"
  have near: "\<bar>of_int r - x * 100\<bar> \<le> 1 / 2"
    unfolding r_def by (rule round_half_even_near)
  have "py_round x 2 - x = (of_int r - x * 100) / 100"
    by (simp add: py_round_def r_def diff_divide_distrib)
  then have "\<bar>py_round x 2 - x\<bar> = \<bar>of_int r - x * 100\<bar> / 100"
    by (simp only: abs_divide abs_numeral)
  with near show ?thesis by simp
qed

lemma py_round_2048: "py_round (of_int 2048 / 1024) 2 = 2"
  by code_simp

lemma py_round_128: "py_round (of_int 128 / 1024) 2 = 12 / 100"
  by code_simp

lemma map_zip_second:
  "length xs = length ys \<Longrightarrow> map (\<lambda>(i, y). h y) (zip xs ys) = map h ys"
  by (induction xs ys rule: list_induct2) simp_all

lemma create_report_rows_sizes:
  "map c_size_kb (create_report_rows results)
     = map (\<lambda>r. py_round (of_int (r_size r) / 1024) 2) results"
proof -
  have "map c_size_kb (create_report_rows results)
      = map (\<lambda>(idx, r). py_round (of_int (r_size r) / 1024) 2)
          (zip [1 ..< Suc (length results)] results)"
    by (simp add: create_report_rows_def report_row_of_def case_prod_unfold)
  also have "\<dots> = map (\<lambda>r. py_round (of_int (r_size r) / 1024) 2) results"
    by (rule map_zip_second) (simp del: upt_Suc)
  finally show ?thesis .
qed

text \<open>
  C9. The size column of the report holds the bytes of the entry divided by 1024 and
  rounded to two decimal digits: a whole number of hundredths, at most half a
  hundredth from the quotient, with 2048 bytes shown as 2 and the tie of 128 bytes
  (0.125) shown as 0.12. The entries that \<open>process_files\<close> returns keep the size in
  bytes of their files unchanged; on a console that takes every text there is one for
  each supported file.
\<close>

theorem report_size_kilobytes:
  "map c_size_kb (create_report_rows results)
     = map (\<lambda>r. of_int (round_half_even (of_int (r_size r) / 1024 * 100)) / 100) results
   \<and> \<bar>c_size_kb (report_row_of idx result) - of_int (r_size result) / 1024\<bar> \<le> 1 / 200
   \<and> c_size_kb (report_row_of idx (result\<lparr>r_size := 2048\<rparr>)) = 2
   \<and> c_size_kb (report_row_of idx (result\<lparr>r_size := 128\<rparr>)) = 12 / 100
   \<and> (process_files env w files = Inr (rs, es) \<longrightarrow>
        subseq (map (\<lambda>r. (r_filename r, r_size r)) rs)
               (map (\<lambda>f. (f_name f, f_size f)) (supported_files env files)))
   \<and> (quiet env \<longrightarrow>
        (\<exists>rs' es'. process_files env w files = Inr (rs', es')
           \<and> map r_size rs' = map f_size (supported_files env files)))"
proof -
  have "map c_size_kb (create_report_rows results)
     = map (\<lambda>r. of_int (round_half_even (of_int (r_size r) / 1024 * 100)) / 100) results"
    by (simp only: create_report_rows_sizes py_round_2_hundredths)
  moreover have "c_size_kb (report_row_of idx result) = py_round (of_int (r_size result) / 1024) 2"
    by (simp add: report_row_of_def)
  then have "\<bar>c_size_kb (report_row_of idx result) - of_int (r_size result) / 1024\<bar> \<le> 1 / 200"
    by (simp only: py_round_2_near)
  moreover have "c_size_kb (report_row_of idx (result\<lparr>r_size := 2048\<rparr>)) = 2"
    using py_round_2048 by (simp add: report_row_of_def)
  moreover have "c_size_kb (report_row_of idx (result\<lparr>r_size := 128\<rparr>)) = 12 / 100"
    using py_round_128 by (simp add: report_row_of_def)
  moreover have "process_files env w files = Inr (rs, es) \<longrightarrow>
        subseq (map (\<lambda>r. (r_filename r, r_size r)) rs)
               (map (\<lambda>f. (f_name f, f_size f)) (supported_files env files))"
  proof
    assume "process_files env w files = Inr (rs, es)"
    from process_files_returned [OF this] obtain cs
      where "list_all2 adds_for (supported_files env files) cs" "rs = concat (map fst cs)"
      by blast
    with adds_entry_sizes [of "supported_files env files" cs]
    show "subseq (map (\<lambda>r. (r_filename r, r_size r)) rs)
               (map (\<lambda>f. (f_name f, f_size f)) (supported_files env files))"
      by simp
  qed
  moreover have "quiet env \<longrightarrow>
        (\<exists>rs' es'. process_files env w files = Inr (rs', es')
           \<and> map r_size rs' = map f_size (supported_files env files))"
  proof
    assume "quiet env"
    from process_files_quiet [OF this, of w files] obtain cs
      where "process_files env w files = Inr (concat (map fst cs), concat (map snd cs))"
        and "list_all2 adds_entry_for (supported_files env files) cs"
      by blast
    with adds_entries_sizes [of "supported_files env files" cs]
    show "\<exists>rs' es'. process_files env w files = Inr (rs', es')
           \<and> map r_size rs' = map f_size (supported_files env files)"
      by blast
  qed
  ultimately show ?thesis by (intro conjI)
qed

theorem report_size_kilobytes_witness:
  "process_files refusing 0 [lost_txt, notes_txt, blob_bin]
     = Inr ([metadata_entry lost_txt],
            [extraction_failed lost_txt ''404 Client Error: Not Found'',
             processing_failed notes_txt
               ''ascii codec cannot encode the text: ordinal not in range(128)''])
   \<and> subseq (map (\<lambda>r. (r_filename r, r_size r)) [metadata_entry lost_txt])
        (map (\<lambda>f. (f_name f, f_size f)) (supported_files refusing [lost_txt, notes_txt, blob_bin]))
   \<and> quiet example_env
   \<and> (\<exists>rs' es'. process_files example_env 0 [notes_txt, scan_pdf, blob_bin] = Inr (rs', es')
          \<and> map r_size rs' = map f_size (supported_files example_env [notes_txt, scan_pdf, blob_bin]))"
proof -
  note T1 = report_size_kilobytes [where env = refusing and w = 0
      and files = "[lost_txt, notes_txt, blob_bin]",
      THEN conjunct2, THEN conjunct2, THEN conjunct2, THEN conjunct2, THEN conjunct1,
      rule_format, OF run_refusing]
  note T2 = report_size_kilobytes [where env = example_env and w = 0
      and files = "[notes_txt, scan_pdf, blob_bin]",
      THEN conjunct2, THEN conjunct2, THEN conjunct2, THEN conjunct2, THEN conjunct2,
      rule_format, OF quiet_example]
  from run_refusing T1 quiet_example T2 show ?thesis by (intro conjI)
qed

end
